theory Spec2Isabelle
  imports Main "HOL-Library.Word"
begin

section \<open>The JNI binding of chat-over-kafka (nativelib.cpp)\<close>

text \<open>
  The source is one C++ file of JNI entry points over librdkafka. Each entry point
  is embedded as a HOL function of
  \<^item> the JNI environment (which lookups and buffer requests succeed),
  \<^item> the client library, given as a record of the answers its calls return,
  \<^item> the Java arguments (\<open>None\<close> is a Java \<open>null\<close>),
  and it returns the Java-visible outcome together with the sequence of library
  calls it performed, in order. A thrown Java exception is the \<open>Inl\<close> of the
  outcome. The source throws one exception type, \<open>RuntimeException\<close>, for every
  failure; the kinds of failure differ by the message only: a fixed text for rejected
  arguments, the library's \<open>errstr\<close> for a rejected property or a failed creation,
  the library's error text for an error code. The releases of JNI string and array
  buffers are not part of the model.
\<close>

subsection \<open>Java and JNI\<close>

type_synonym jlong = "64 word"
type_synonym jint = "32 word"
type_synonym jbyte = "8 word"

datatype java_throwable =
    RuntimeException string
  | NoClassDefFoundError string
  | NoSuchMethodError string

record JNIEnv =
  FindClass :: "string \<Rightarrow> bool"
  GetMethodID :: "string \<Rightarrow> string \<Rightarrow> string \<Rightarrow> bool"
  string_chars_available :: "string \<Rightarrow> bool"
  array_elements_available :: "jbyte list \<Rightarrow> bool"

text \<open>\<open>GetStringUTFChars\<close> and \<open>GetByteArrayElements\<close> return a null pointer when
  the JVM cannot provide the buffer.\<close>

definition GetStringUTFChars :: "JNIEnv \<Rightarrow> string \<Rightarrow> string option" where
  "GetStringUTFChars env jstr =
     (if string_chars_available env jstr then Some jstr else None)"

definition GetByteArrayElements :: "JNIEnv \<Rightarrow> jbyte list \<Rightarrow> jbyte list option" where
  "GetByteArrayElements env arr =
     (if array_elements_available env arr then Some arr else None)"

text \<open>class JniStringWrapper: the C string of a non-null \<open>jstring\<close>, else null.\<close>

definition JniStringWrapper :: "JNIEnv \<Rightarrow> string option \<Rightarrow> string option" where
  "JniStringWrapper env jstr =
     (case jstr of None \<Rightarrow> None | Some s \<Rightarrow> GetStringUTFChars env s)"

text \<open>\<open>throwJavaException\<close>: \<open>ThrowNew\<close> of a RuntimeException when the class is
  found; otherwise the failed \<open>FindClass\<close> leaves the JVM's own error pending.\<close>

definition throwJavaException :: "JNIEnv \<Rightarrow> string \<Rightarrow> java_throwable" where
  "throwJavaException env msg =
     (if FindClass env ''java/lang/RuntimeException'' then RuntimeException msg
      else NoClassDefFoundError ''java/lang/RuntimeException'')"

subsection \<open>librdkafka as seen by the binding\<close>

text \<open>Error codes are the integers of \<open>rd_kafka_resp_err_t\<close>; the three constants
  used by the source have the values that librdkafka's header gives them.\<close>

type_synonym rd_kafka_resp_err_t = int

definition RD_KAFKA_RESP_ERR_NO_ERROR :: rd_kafka_resp_err_t where
  "RD_KAFKA_RESP_ERR_NO_ERROR = 0"

definition RD_KAFKA_RESP_ERR__PARTITION_EOF :: rd_kafka_resp_err_t where
  "RD_KAFKA_RESP_ERR__PARTITION_EOF = - 191"

definition RD_KAFKA_PARTITION_UA :: "32 word" where
  "RD_KAFKA_PARTITION_UA = - 1"

datatype rd_kafka_conf_res_t =
  RD_KAFKA_CONF_UNKNOWN | RD_KAFKA_CONF_INVALID | RD_KAFKA_CONF_OK

datatype rd_kafka_type_t = RD_KAFKA_PRODUCER | RD_KAFKA_CONSUMER

text \<open>A configuration object: the properties set on it so far, in order.\<close>

type_synonym rd_kafka_conf_t = "(string \<times> string option) list"

text \<open>The arguments of one \<open>rd_kafka_producev\<close> call. The message flags are always
  \<open>RD_KAFKA_MSG_F_COPY\<close> and the opaque is always the address of the call's
  \<open>DeliveryState\<close>.\<close>

record produce_args =
  v_topic :: string
  v_partition :: "32 word option"
  v_key :: "jbyte list option"
  v_value :: "jbyte list"

record rd_kafka_message_t =
  msg_err :: rd_kafka_resp_err_t
  msg_rkt :: string
  msg_partition :: "32 word"
  msg_payload :: "jbyte list option"
  msg_key :: "jbyte list option"
  msg_offset :: "64 word"
  msg_private :: bool

text \<open>
  What \<open>rd_kafka_message_errstr\<close> returns is a pointer: to a text that outlives the
  message, or into the message itself (its payload).
\<close>

datatype errstr_ptr = Static_text string | Message_payload

text \<open>
  The answers of the library. \<open>rd_kafka_conf_set\<close> returns its result code and what
  it wrote to \<open>errstr\<close>; \<open>rd_kafka_new\<close> returns the handle (0 is the null pointer)
  and \<open>errstr\<close>; \<open>delivery_reports args n\<close> is the delivery report, if any, that the
  \<open>n\<close>-th \<open>rd_kafka_poll\<close> of a send hands to the delivery callback for the message
  enqueued with \<open>args\<close> (\<open>msg_private\<close> tells whether its opaque is the waiter);
  \<open>read_after_destroy m\<close> is what a read at the payload address of \<open>m\<close> yields once
  \<open>m\<close> has been destroyed, about which nothing is assumed.
\<close>

record rdkafka =
  rd_kafka_conf_set ::
    "rd_kafka_conf_t \<Rightarrow> string \<Rightarrow> string option \<Rightarrow> rd_kafka_conf_res_t \<times> string"
  rd_kafka_new :: "rd_kafka_type_t \<Rightarrow> rd_kafka_conf_t \<Rightarrow> jlong \<times> string"
  rd_kafka_producev :: "jlong \<Rightarrow> produce_args \<Rightarrow> rd_kafka_resp_err_t"
  delivery_reports :: "produce_args \<Rightarrow> nat \<Rightarrow> rd_kafka_message_t option"
  rd_kafka_err2str :: "rd_kafka_resp_err_t \<Rightarrow> string"
  rd_kafka_subscribe ::
    "jlong \<Rightarrow> (string \<times> 32 word) list \<Rightarrow> rd_kafka_resp_err_t"
  rd_kafka_consumer_poll :: "jlong \<Rightarrow> jint \<Rightarrow> rd_kafka_message_t option"
  rd_kafka_message_errstr :: "rd_kafka_message_t \<Rightarrow> errstr_ptr"
  read_after_destroy :: "rd_kafka_message_t \<Rightarrow> string"
  rd_kafka_consumer_close :: "jlong \<Rightarrow> rd_kafka_resp_err_t"

datatype rd_kafka_call =
    Conf_new
  | Conf_set string "string option"
  | Conf_set_log_cb
  | Conf_set_dr_msg_cb
  | Conf_set_opaque jlong
  | Conf_destroy
  | Kafka_new rd_kafka_type_t rd_kafka_conf_t
  | Producev jlong produce_args
  | Kafka_poll jlong int
  | Topic_partition_list_new nat
  | Topic_partition_list_add string "32 word"
  | Topic_partition_list_destroy
  | Subscribe jlong "(string \<times> 32 word) list"
  | Consumer_poll jlong jint
  | Message_destroy
  | Consumer_close jlong
  | Kafka_destroy jlong

subsection \<open>The delivery waiter\<close>

record DeliveryState =
  ds_done :: bool
  ds_err :: rd_kafka_resp_err_t
  ds_partition :: "32 word"
  ds_offset :: "64 word"

definition DeliveryState_init :: DeliveryState where
  "DeliveryState_init =
     \<lparr>ds_done = False, ds_err = RD_KAFKA_RESP_ERR_NO_ERROR,
      ds_partition = - 1, ds_offset = - 1\<rparr>"

definition delivery_report_cb :: "rd_kafka_message_t \<Rightarrow> DeliveryState \<Rightarrow> DeliveryState" where
  "delivery_report_cb msg state =
     (if \<not> msg_private msg then state
      else state\<lparr>ds_err := msg_err msg, ds_partition := msg_partition msg,
                 ds_offset := msg_offset msg, ds_done := True\<rparr>)"

text \<open>
  The loop "Block until delivery": each round drives \<open>rd_kafka_poll\<close>, which may run
  the delivery callback, then reads \<open>done\<close>. It returns the waiter and the number of
  \<open>rd_kafka_poll\<close> calls made; it has no bound, so it may not return.
\<close>

partial_function (option) block_until_delivery ::
  "(nat \<Rightarrow> rd_kafka_message_t option) \<Rightarrow> nat \<Rightarrow> DeliveryState \<Rightarrow> (DeliveryState \<times> nat) option"
where
  "block_until_delivery reports n state =
     (case (case reports n of None \<Rightarrow> state | Some msg \<Rightarrow> delivery_report_cb msg state) of
        state' \<Rightarrow>
          if ds_done state' then Some (state', Suc n)
          else block_until_delivery reports (Suc n) state')"

subsection \<open>Synchronous send\<close>

record RecordMetadata =
  rm_partition :: "32 word"
  rm_offset :: "64 word"

text \<open>The construction of the Kotlin \<open>RecordMetadata(partition, offset)\<close>. The source
  checks neither the class lookup nor the constructor lookup; a failed lookup is shown
  as the error the JVM leaves pending.\<close>

definition new_RecordMetadata :: "JNIEnv \<Rightarrow> DeliveryState \<Rightarrow> java_throwable + RecordMetadata" where
  "new_RecordMetadata env state =
     (if \<not> FindClass env ''org/github/cyterdan/chat_over_kafka/RecordMetadata''
      then Inl (NoClassDefFoundError ''org/github/cyterdan/chat_over_kafka/RecordMetadata'')
      else if \<not> GetMethodID env ''org/github/cyterdan/chat_over_kafka/RecordMetadata''
                  ''<init>'' ''(IJ)V''
      then Inl (NoSuchMethodError ''<init>'')
      else Inr \<lparr>rm_partition = ds_partition state, rm_offset = ds_offset state\<rparr>)"

type_synonym produce_result =
  "(java_throwable + RecordMetadata) \<times> rd_kafka_call list \<times> DeliveryState option"

definition produceMessageBytes ::
  "JNIEnv \<Rightarrow> rdkafka \<Rightarrow> jlong \<Rightarrow> string option \<Rightarrow> jbyte list option \<Rightarrow> jbyte list option
     \<Rightarrow> produce_result option"
where
  "produceMessageBytes env lib producerPtr jtopic jkey jvalue =
     (if producerPtr = 0 \<or> jtopic = None \<or> jvalue = None
      then Some (Inl (throwJavaException env ''Invalid arguments''), [], None)
      else case GetStringUTFChars env (the jtopic) of
        None \<Rightarrow> Some (Inl (throwJavaException env ''Failed to get topic''), [], None)
      | Some topic \<Rightarrow>
      (case GetByteArrayElements env (the jvalue) of
        None \<Rightarrow> Some (Inl (throwJavaException env ''Failed to get value bytes''), [], None)
      | Some value_bytes \<Rightarrow>
      (case (case jkey of None \<Rightarrow> Some None
             | Some k \<Rightarrow> map_option Some (GetByteArrayElements env k)) of
        None \<Rightarrow> Some (Inl (throwJavaException env ''Failed to get key bytes''), [], None)
      | Some key_bytes \<Rightarrow>
      (case \<lparr>v_topic = topic, v_partition = None, v_key = key_bytes, v_value = value_bytes\<rparr> of
        args \<Rightarrow>
      (case rd_kafka_producev lib producerPtr args of
        err \<Rightarrow>
          if err \<noteq> RD_KAFKA_RESP_ERR_NO_ERROR
          then Some (Inl (throwJavaException env (rd_kafka_err2str lib err)),
                     [Producev producerPtr args], Some DeliveryState_init)
          else
      (case block_until_delivery (delivery_reports lib args) 0 DeliveryState_init of
        None \<Rightarrow> None
      | Some (state, polls) \<Rightarrow>
          Some (if ds_err state \<noteq> RD_KAFKA_RESP_ERR_NO_ERROR
                then Inl (throwJavaException env (rd_kafka_err2str lib (ds_err state)))
                else new_RecordMetadata env state,
                Producev producerPtr args # replicate polls (Kafka_poll producerPtr 100),
                Some state)))))))"

definition produceMessageBytesToPartition ::
  "JNIEnv \<Rightarrow> rdkafka \<Rightarrow> jlong \<Rightarrow> string option \<Rightarrow> jint \<Rightarrow> jbyte list option
     \<Rightarrow> jbyte list option \<Rightarrow> produce_result option"
where
  "produceMessageBytesToPartition env lib producerPtr jtopic jpartition jkey jvalue =
     (if producerPtr = 0 \<or> jtopic = None \<or> jvalue = None
      then Some (Inl (throwJavaException env ''Invalid arguments''), [], None)
      else case GetStringUTFChars env (the jtopic) of
        None \<Rightarrow> Some (Inl (throwJavaException env ''Failed to get topic''), [], None)
      | Some topic \<Rightarrow>
      (case GetByteArrayElements env (the jvalue) of
        None \<Rightarrow> Some (Inl (throwJavaException env ''Failed to get value bytes''), [], None)
      | Some value_bytes \<Rightarrow>
      (case (case jkey of None \<Rightarrow> Some None
             | Some k \<Rightarrow> map_option Some (GetByteArrayElements env k)) of
        None \<Rightarrow> Some (Inl (throwJavaException env ''Failed to get key bytes''), [], None)
      | Some key_bytes \<Rightarrow>
      (case \<lparr>v_topic = topic, v_partition = Some jpartition, v_key = key_bytes,
             v_value = value_bytes\<rparr> of
        args \<Rightarrow>
      (case rd_kafka_producev lib producerPtr args of
        err \<Rightarrow>
          if err \<noteq> RD_KAFKA_RESP_ERR_NO_ERROR
          then Some (Inl (throwJavaException env (rd_kafka_err2str lib err)),
                     [Producev producerPtr args], Some DeliveryState_init)
          else
      (case block_until_delivery (delivery_reports lib args) 0 DeliveryState_init of
        None \<Rightarrow> None
      | Some (state, polls) \<Rightarrow>
          Some (if ds_err state \<noteq> RD_KAFKA_RESP_ERR_NO_ERROR
                then Inl (throwJavaException env (rd_kafka_err2str lib (ds_err state)))
                else new_RecordMetadata env state,
                Producev producerPtr args # replicate polls (Kafka_poll producerPtr 100),
                Some state)))))))"

subsection \<open>Handle creation\<close>

text \<open>
  Both creation functions repeat one block per property: call \<open>rd_kafka_conf_set\<close>
  and, when the result is not \<open>RD_KAFKA_CONF_OK\<close>, leave with \<open>errstr\<close>.
  \<open>conf_set_each\<close> is that block over the properties in the order of the source:
  it stops at the first rejection and returns \<open>errstr\<close>, or returns the
  configuration with every property set.
\<close>

fun conf_set_each ::
  "rdkafka \<Rightarrow> (string \<times> string option) list \<Rightarrow> rd_kafka_conf_t
     \<Rightarrow> (string + rd_kafka_conf_t) \<times> rd_kafka_call list"
where
  "conf_set_each lib [] conf = (Inr conf, [])"
| "conf_set_each lib ((name, val) # rest) conf =
     (case rd_kafka_conf_set lib conf name val of
        (res, errstr) \<Rightarrow>
          if res \<noteq> RD_KAFKA_CONF_OK then (Inl errstr, [Conf_set name val])
          else (case conf_set_each lib rest (conf @ [(name, val)]) of
                  (r, calls) \<Rightarrow> (r, Conf_set name val # calls)))"

text \<open>
  \<open>createProducerMTLS\<close>. The configuration is held by a \<open>unique_ptr\<close> whose deleter
  is \<open>rd_kafka_conf_destroy\<close>, so every early return destroys it; the pointer is
  released into \<open>rd_kafka_new\<close>. The result of setting \<open>acks\<close> is not inspected.
\<close>

definition createProducerMTLS ::
  "JNIEnv \<Rightarrow> rdkafka \<Rightarrow> string option \<Rightarrow> string option \<Rightarrow> string option \<Rightarrow> string option
     \<Rightarrow> (java_throwable + jlong) \<times> rd_kafka_call list"
where
  "createProducerMTLS env lib jbrokers jcaCertPath jclientCertPath jclientKeyPath =
     (case conf_set_each lib
             [(''bootstrap.servers'', JniStringWrapper env jbrokers),
              (''security.protocol'', Some ''SSL''),
              (''ssl.ca.location'', JniStringWrapper env jcaCertPath),
              (''ssl.certificate.location'', JniStringWrapper env jclientCertPath),
              (''ssl.key.location'', JniStringWrapper env jclientKeyPath)] [] of
        (Inl errstr, calls) \<Rightarrow>
          (Inl (throwJavaException env errstr), Conf_new # calls @ [Conf_destroy])
      | (Inr conf, calls) \<Rightarrow>
          (case (if fst (rd_kafka_conf_set lib conf ''acks'' (Some ''all'')) = RD_KAFKA_CONF_OK
                 then conf @ [(''acks'', Some ''all'')] else conf) of
             conf' \<Rightarrow>
          (case rd_kafka_new lib RD_KAFKA_PRODUCER conf' of
             (producer, errstr) \<Rightarrow>
               (if producer = 0 then Inl (throwJavaException env errstr) else Inr producer,
                Conf_new # calls @
                  [Conf_set ''acks'' (Some ''all''), Conf_set_log_cb, Conf_set_dr_msg_cb,
                   Kafka_new RD_KAFKA_PRODUCER conf']))))"

definition createConsumerMTLS ::
  "JNIEnv \<Rightarrow> rdkafka \<Rightarrow> string option \<Rightarrow> string option \<Rightarrow> string option \<Rightarrow> string option
     \<Rightarrow> string option \<Rightarrow> string option \<Rightarrow> (java_throwable + jlong) \<times> rd_kafka_call list"
where
  "createConsumerMTLS env lib jbrokers jgroupId jcaCertPath jclientCertPath jclientKeyPath
       joffsetStrategy =
     (if jbrokers = None
      then (Inl (throwJavaException env ''Brokers cannot be null''), [])
      else if jgroupId = None
      then (Inl (throwJavaException env ''Group ID cannot be null''), [])
      else if jcaCertPath = None \<or> jclientCertPath = None \<or> jclientKeyPath = None
      then (Inl (throwJavaException env ''Certificate paths cannot be null''), [])
      else
      (case (GetStringUTFChars env (the jbrokers), GetStringUTFChars env (the jgroupId),
             GetStringUTFChars env (the jcaCertPath),
             GetStringUTFChars env (the jclientCertPath),
             GetStringUTFChars env (the jclientKeyPath),
             (case joffsetStrategy of None \<Rightarrow> Some ''latest''
              | Some s \<Rightarrow> GetStringUTFChars env s)) of
        (brokers, groupId, caCertPath, clientCertPath, clientKeyPath, offsetStrategy) \<Rightarrow>
          if brokers = None \<or> groupId = None \<or> caCertPath = None \<or> clientCertPath = None
             \<or> clientKeyPath = None
          then (Inl (throwJavaException env ''Failed to get strings from JNI''), [])
          else
          (case conf_set_each lib
                  [(''bootstrap.servers'', brokers),
                   (''group.id'', groupId),
                   (''security.protocol'', Some ''SSL''),
                   (''ssl.ca.location'', caCertPath),
                   (''ssl.certificate.location'', clientCertPath),
                   (''ssl.key.location'', clientKeyPath),
                   (''auto.offset.reset'', offsetStrategy)] [] of
             (Inl errstr, calls) \<Rightarrow>
               (Inl (throwJavaException env errstr), Conf_new # calls @ [Conf_destroy])
           | (Inr conf, calls) \<Rightarrow>
               (case rd_kafka_new lib RD_KAFKA_CONSUMER conf of
                  (consumer, errstr) \<Rightarrow>
                    if consumer = 0
                    then (Inl (throwJavaException env errstr),
                          Conf_new # calls @ [Kafka_new RD_KAFKA_CONSUMER conf, Conf_destroy])
                    else (Inr consumer,
                          Conf_new # calls @ [Kafka_new RD_KAFKA_CONSUMER conf])))))"

subsection \<open>Subscription, polling and teardown\<close>

text \<open>
  \<open>subscribe\<close>. A void function: the outcome is the exception thrown, if any.
  The configuration object made here is given to \<open>rd_kafka_conf_set\<close> and
  \<open>rd_kafka_conf_set_opaque\<close> only; on the path past the property it is neither
  destroyed nor handed to any other call.
\<close>

definition subscribe ::
  "JNIEnv \<Rightarrow> rdkafka \<Rightarrow> jlong \<Rightarrow> string option \<Rightarrow> string option
     \<Rightarrow> java_throwable option \<times> rd_kafka_call list"
where
  "subscribe env lib consumerPtr jtopic joffsetStrategy =
     (if consumerPtr = 0
      then (Some (throwJavaException env ''Consumer pointer is null''), [])
      else if jtopic = None
      then (Some (throwJavaException env ''Topic cannot be null''), [])
      else
      (case (GetStringUTFChars env (the jtopic),
             (case joffsetStrategy of None \<Rightarrow> Some ''latest''
              | Some s \<Rightarrow> GetStringUTFChars env s)) of
        (None, offsetStrategy) \<Rightarrow>
          (Some (throwJavaException env ''Failed to get topic string from JNI''), [])
      | (Some topic, offsetStrategy) \<Rightarrow>
          (case rd_kafka_conf_set lib [] ''auto.offset.reset'' offsetStrategy of
             (res, errstr) \<Rightarrow>
               if res \<noteq> RD_KAFKA_CONF_OK
               then (Some (throwJavaException env errstr),
                     [Conf_new, Conf_set ''auto.offset.reset'' offsetStrategy, Conf_destroy])
               else
               (case rd_kafka_subscribe lib consumerPtr [(topic, RD_KAFKA_PARTITION_UA)] of
                  err \<Rightarrow>
                    (if err \<noteq> RD_KAFKA_RESP_ERR_NO_ERROR
                     then Some (throwJavaException env (rd_kafka_err2str lib err))
                     else None,
                     [Conf_new, Conf_set ''auto.offset.reset'' offsetStrategy,
                      Conf_set_opaque consumerPtr,
                      Topic_partition_list_new 1,
                      Topic_partition_list_add topic RD_KAFKA_PARTITION_UA,
                      Subscribe consumerPtr [(topic, RD_KAFKA_PARTITION_UA)],
                      Topic_partition_list_destroy])))))"

record KafkaMessage =
  km_key :: "jbyte list option"
  km_value :: "jbyte list option"
  km_topic :: string
  km_partition :: "32 word"
  km_offset :: "64 word"

text \<open>\<open>pollMessage\<close>: \<open>Inr None\<close> is the return of \<open>nullptr\<close> with no exception
  pending. On an error other than the end of a partition the source takes the pointer
  \<open>rd_kafka_message_errstr\<close> returns, destroys the message, and only then throws with
  that pointer: the text of the exception is what the pointer reads after the
  destruction.\<close>

definition pollMessage ::
  "JNIEnv \<Rightarrow> rdkafka \<Rightarrow> jlong \<Rightarrow> jint
     \<Rightarrow> (java_throwable + KafkaMessage option) \<times> rd_kafka_call list"
where
  "pollMessage env lib consumerPtr timeoutMs =
     (if consumerPtr = 0
      then (Inl (throwJavaException env ''Consumer pointer is null''), [])
      else case rd_kafka_consumer_poll lib consumerPtr timeoutMs of
        None \<Rightarrow> (Inr None, [Consumer_poll consumerPtr timeoutMs])
      | Some rkmessage \<Rightarrow>
          if msg_err rkmessage \<noteq> 0
          then (if msg_err rkmessage = RD_KAFKA_RESP_ERR__PARTITION_EOF
                then (Inr None, [Consumer_poll consumerPtr timeoutMs, Message_destroy])
                else (case rd_kafka_message_errstr lib rkmessage of
                        errstr \<Rightarrow>
                          (Inl (throwJavaException env
                                  (case errstr of
                                     Static_text text \<Rightarrow> text
                                   | Message_payload \<Rightarrow> read_after_destroy lib rkmessage)),
                           [Consumer_poll consumerPtr timeoutMs, Message_destroy])))
          else if \<not> FindClass env ''org/github/cyterdan/chat_over_kafka/KafkaMessage''
          then (Inl (throwJavaException env ''Failed to find KafkaMessage class''),
                [Consumer_poll consumerPtr timeoutMs, Message_destroy])
          else if \<not> GetMethodID env ''org/github/cyterdan/chat_over_kafka/KafkaMessage''
                      ''<init>'' ''([B[BLjava/lang/String;IJ)V''
          then (Inl (throwJavaException env ''Failed to find KafkaMessage constructor''),
                [Consumer_poll consumerPtr timeoutMs, Message_destroy])
          else (Inr (Some
                  \<lparr>km_key = (case msg_key rkmessage of None \<Rightarrow> None
                             | Some k \<Rightarrow> if length k > 0 then Some k else None),
                   km_value = (case msg_payload rkmessage of None \<Rightarrow> None
                               | Some p \<Rightarrow> if length p > 0 then Some p else None),
                   km_topic = msg_rkt rkmessage,
                   km_partition = msg_partition rkmessage,
                   km_offset = msg_offset rkmessage\<rparr>),
                [Consumer_poll consumerPtr timeoutMs, Message_destroy]))"


subsection \<open>Vocabulary of the statements\<close>

text \<open>A delivery report completes the waiter when it exists and carries the
  waiter as its opaque.\<close>

definition completes :: "rd_kafka_message_t option \<Rightarrow> bool" where
  "completes r = (case r of None \<Rightarrow> False | Some msg \<Rightarrow> msg_private msg)"

text \<open>The JNI buffers of a send's topic, key and value can be obtained.\<close>

definition buffers_available ::
  "JNIEnv \<Rightarrow> string \<Rightarrow> jbyte list option \<Rightarrow> jbyte list \<Rightarrow> bool" where
  "buffers_available env topic jkey v =
     (string_chars_available env topic \<and> array_elements_available env v \<and>
      (case jkey of None \<Rightarrow> True | Some k \<Rightarrow> array_elements_available env k))"

definition send_args ::
  "string \<Rightarrow> 32 word option \<Rightarrow> jbyte list option \<Rightarrow> jbyte list \<Rightarrow> produce_args" where
  "send_args topic part jkey v =
     \<lparr>v_topic = topic, v_partition = part, v_key = jkey, v_value = v\<rparr>"

text \<open>A library that is handed the partition \<open>p\<close> with every enqueue request, and
  the same addition applied to a recorded call.\<close>

definition with_partition :: "32 word \<Rightarrow> rdkafka \<Rightarrow> rdkafka" where
  "with_partition p lib =
     lib\<lparr>rd_kafka_producev := \<lambda>h a. rd_kafka_producev lib h (a\<lparr>v_partition := Some p\<rparr>),
         delivery_reports := \<lambda>a. delivery_reports lib (a\<lparr>v_partition := Some p\<rparr>)\<rparr>"

definition call_with_partition :: "32 word \<Rightarrow> rd_kafka_call \<Rightarrow> rd_kafka_call" where
  "call_with_partition p c =
     (case c of Producev h a \<Rightarrow> Producev h (a\<lparr>v_partition := Some p\<rparr>) | _ \<Rightarrow> c)"

definition result_with_partition :: "32 word \<Rightarrow> produce_result \<Rightarrow> produce_result" where
  "result_with_partition p r =
     (case r of (outcome, calls, waiter) \<Rightarrow> (outcome, map (call_with_partition p) calls, waiter))"

subsection \<open>Concrete environments for the examples\<close>

definition jni_all_ok :: JNIEnv where
  "jni_all_ok =
     \<lparr>FindClass = \<lambda>_. True, GetMethodID = \<lambda>_ _ _. True,
      string_chars_available = \<lambda>_. True, array_elements_available = \<lambda>_. True\<rparr>"

definition err2str_demo :: "rd_kafka_resp_err_t \<Rightarrow> string" where
  "err2str_demo e =
     (if e = 0 then ''Success''
      else if e = - 184 then ''Local: Queue full''
      else if e = 3 then ''Broker: Unknown topic or partition''
      else ''Unknown error'')"

text \<open>A library that accepts everything and reports nothing.\<close>

definition lib_quiet :: rdkafka where
  "lib_quiet =
     \<lparr>rd_kafka_conf_set = \<lambda>_ _ _. (RD_KAFKA_CONF_OK, []),
      rd_kafka_new = \<lambda>_ _. (4096, []),
      rd_kafka_producev = \<lambda>_ _. 0,
      delivery_reports = \<lambda>_ _. None,
      rd_kafka_err2str = err2str_demo,
      rd_kafka_subscribe = \<lambda>_ _. 0,
      rd_kafka_consumer_poll = \<lambda>_ _. None,
      rd_kafka_message_errstr = \<lambda>m. Static_text (err2str_demo (msg_err m)),
      read_after_destroy = \<lambda>_. [],
      rd_kafka_consumer_close = \<lambda>_. 0\<rparr>"

definition lib_delivering :: "nat \<Rightarrow> rd_kafka_message_t \<Rightarrow> rdkafka" where
  "lib_delivering k m =
     lib_quiet\<lparr>delivery_reports := \<lambda>_ n. if n = k then Some m else None\<rparr>"

definition lib_rejecting_enqueue :: "rd_kafka_resp_err_t \<Rightarrow> rdkafka" where
  "lib_rejecting_enqueue e = lib_quiet\<lparr>rd_kafka_producev := \<lambda>_ _. e\<rparr>"

definition lib_rejecting_property :: "string \<Rightarrow> string \<Rightarrow> rdkafka" where
  "lib_rejecting_property name msg =
     lib_quiet\<lparr>rd_kafka_conf_set :=
       \<lambda>_ n _. if n = name then (RD_KAFKA_CONF_INVALID, msg) else (RD_KAFKA_CONF_OK, [])\<rparr>"


text \<open>A library whose errored messages carry their error text as payload, and the
  text that the payload address reads as after the destruction.\<close>

definition lib_error_in_payload :: "rd_kafka_message_t option \<Rightarrow> string \<Rightarrow> rdkafka" where
  "lib_error_in_payload r freed =
     lib_quiet\<lparr>rd_kafka_consumer_poll := \<lambda>_ _. r,
               rd_kafka_message_errstr := \<lambda>_. Message_payload,
               read_after_destroy := \<lambda>_. freed\<rparr>"


definition report_demo :: "rd_kafka_resp_err_t \<Rightarrow> rd_kafka_message_t" where
  "report_demo e =
     \<lparr>msg_err = e, msg_rkt = ''chat'', msg_partition = 3, msg_payload = Some [104, 105],
      msg_key = None, msg_offset = 42, msg_private = True\<rparr>"

definition fetched_demo :: "rd_kafka_resp_err_t \<Rightarrow> jbyte list option \<Rightarrow> rd_kafka_message_t" where
  "fetched_demo e payload =
     \<lparr>msg_err = e, msg_rkt = ''chat'', msg_partition = 0, msg_payload = payload,
      msg_key = Some [], msg_offset = 7, msg_private = False\<rparr>"

section \<open>Properties\<close>

subsection \<open>The waiting loop\<close>

lemma delivery_report_cb_ignored:
  "\<not> completes r \<Longrightarrow> (case r of None \<Rightarrow> state | Some msg \<Rightarrow> delivery_report_cb msg state) = state"
  by (simp add: completes_def delivery_report_cb_def split: option.splits)

lemma block_until_delivery_first:
  assumes "reports k = Some m" and "msg_private m"
    and "\<forall>j. n \<le> j \<and> j < k \<longrightarrow> \<not> completes (reports j)"
    and "n \<le> k" and "\<not> ds_done state"
  shows "block_until_delivery reports n state = Some (delivery_report_cb m state, Suc k)"
  using assms
proof (induction "k - n" arbitrary: n)
  case 0
  then have "n = k" by simp
  with 0 show ?case
    by (subst block_until_delivery.simps) (simp add: delivery_report_cb_def)
next
  case (Suc d)
  then have lt: "n < k" by simp
  with Suc.prems have quiet: "\<not> completes (reports n)" by simp
  have "block_until_delivery reports n state = block_until_delivery reports (Suc n) state"
    by (subst block_until_delivery.simps)
       (simp add: delivery_report_cb_ignored [OF quiet] Suc.prems)
  also have "\<dots> = Some (delivery_report_cb m state, Suc k)"
    using Suc lt by (intro Suc.hyps) auto
  finally show ?case .
qed

lemma marshal_simps:
  "buffers_available env topic jkey v \<Longrightarrow> GetStringUTFChars env topic = Some topic"
  "buffers_available env topic jkey v \<Longrightarrow> GetByteArrayElements env v = Some v"
  "buffers_available env topic jkey v \<Longrightarrow>
     (case jkey of None \<Rightarrow> Some None | Some k \<Rightarrow> map_option Some (GetByteArrayElements env k))
       = Some jkey"
  by (auto simp: buffers_available_def GetStringUTFChars_def GetByteArrayElements_def
      split: option.splits)

subsection \<open>Outcome of a send\<close>

text \<open>
  Claim C1. Take a send whose arguments pass validation and whose buffers are
  obtained. When the enqueue call succeeds and the \<open>k\<close>-th event-driving call is the
  first to run the delivery callback on the waiter, with report \<open>m\<close>, the send returns
  after that call: for the success code it returns the receipt holding exactly the
  partition and offset the callback stored in the waiter, for any other code it throws
  the library's text of that code and returns no receipt. When the enqueue call is
  rejected the send throws the library's text of the enqueue error at once, with no
  event-driving call made and the waiter still not completed.
\<close>

theorem produceMessageBytes_delivery_outcome:
  assumes ptr: "producerPtr \<noteq> 0"
    and rte: "FindClass env ''java/lang/RuntimeException''"
    and cls: "FindClass env ''org/github/cyterdan/chat_over_kafka/RecordMetadata''"
    and ctor: "GetMethodID env ''org/github/cyterdan/chat_over_kafka/RecordMetadata''
                 ''<init>'' ''(IJ)V''"
    and bufs: "buffers_available env topic jkey v"
  shows
    "(rd_kafka_producev lib producerPtr (send_args topic None jkey v) = RD_KAFKA_RESP_ERR_NO_ERROR \<and>
      delivery_reports lib (send_args topic None jkey v) k = Some m \<and> msg_private m \<and>
      (\<forall>j<k. \<not> completes (delivery_reports lib (send_args topic None jkey v) j)) \<longrightarrow>
      produceMessageBytes env lib producerPtr (Some topic) jkey (Some v) =
        Some (if msg_err m = RD_KAFKA_RESP_ERR_NO_ERROR
              then Inr \<lparr>rm_partition = msg_partition m, rm_offset = msg_offset m\<rparr>
              else Inl (RuntimeException (rd_kafka_err2str lib (msg_err m))),
              Producev producerPtr (send_args topic None jkey v)
                # replicate (Suc k) (Kafka_poll producerPtr 100),
              Some \<lparr>ds_done = True, ds_err = msg_err m, ds_partition = msg_partition m,
                    ds_offset = msg_offset m\<rparr>))
     \<and>
     (rd_kafka_producev lib producerPtr (send_args topic None jkey v) \<noteq> RD_KAFKA_RESP_ERR_NO_ERROR \<longrightarrow>
      produceMessageBytes env lib producerPtr (Some topic) jkey (Some v) =
        Some (Inl (RuntimeException (rd_kafka_err2str lib
                (rd_kafka_producev lib producerPtr (send_args topic None jkey v)))),
              [Producev producerPtr (send_args topic None jkey v)],
              Some DeliveryState_init)
      \<and> \<not> ds_done DeliveryState_init)"
proof (intro conjI impI)
  assume h: "rd_kafka_producev lib producerPtr (send_args topic None jkey v) = RD_KAFKA_RESP_ERR_NO_ERROR \<and>
      delivery_reports lib (send_args topic None jkey v) k = Some m \<and> msg_private m \<and>
      (\<forall>j<k. \<not> completes (delivery_reports lib (send_args topic None jkey v) j))"
  have loop: "block_until_delivery (delivery_reports lib (send_args topic None jkey v)) 0 DeliveryState_init
      = Some (delivery_report_cb m DeliveryState_init, Suc k)"
    using h by (intro block_until_delivery_first) (simp_all add: DeliveryState_init_def)
  have st: "delivery_report_cb m DeliveryState_init =
      \<lparr>ds_done = True, ds_err = msg_err m, ds_partition = msg_partition m, ds_offset = msg_offset m\<rparr>"
    using h by (simp add: delivery_report_cb_def DeliveryState_init_def)
  show "produceMessageBytes env lib producerPtr (Some topic) jkey (Some v) =
        Some (if msg_err m = RD_KAFKA_RESP_ERR_NO_ERROR
              then Inr \<lparr>rm_partition = msg_partition m, rm_offset = msg_offset m\<rparr>
              else Inl (RuntimeException (rd_kafka_err2str lib (msg_err m))),
              Producev producerPtr (send_args topic None jkey v)
                # replicate (Suc k) (Kafka_poll producerPtr 100),
              Some \<lparr>ds_done = True, ds_err = msg_err m, ds_partition = msg_partition m,
                    ds_offset = msg_offset m\<rparr>)"
    using h ptr rte cls ctor loop [unfolded send_args_def st]
    by (simp add: produceMessageBytes_def marshal_simps [OF bufs] send_args_def
        throwJavaException_def new_RecordMetadata_def)
next
  assume "rd_kafka_producev lib producerPtr (send_args topic None jkey v) \<noteq> RD_KAFKA_RESP_ERR_NO_ERROR"
  then show "produceMessageBytes env lib producerPtr (Some topic) jkey (Some v) =
        Some (Inl (RuntimeException (rd_kafka_err2str lib
                (rd_kafka_producev lib producerPtr (send_args topic None jkey v)))),
              [Producev producerPtr (send_args topic None jkey v)],
              Some DeliveryState_init)"
    using ptr rte
    by (simp add: produceMessageBytes_def marshal_simps [OF bufs] send_args_def
        throwJavaException_def)
next
  show "\<not> ds_done DeliveryState_init" by (simp add: DeliveryState_init_def)
qed

theorem produceMessageBytes_delivery_outcome_witness:
  "produceMessageBytes jni_all_ok (lib_delivering 2 (report_demo 0)) 1 (Some ''chat'') None
       (Some [104, 105]) =
     Some (Inr \<lparr>rm_partition = 3, rm_offset = 42\<rparr>,
           [Producev 1 (send_args ''chat'' None None [104, 105]),
            Kafka_poll 1 100, Kafka_poll 1 100, Kafka_poll 1 100],
           Some \<lparr>ds_done = True, ds_err = 0, ds_partition = 3, ds_offset = 42\<rparr>)
   \<and> produceMessageBytes jni_all_ok (lib_delivering 0 (report_demo 3)) 1 (Some ''chat'') None
       (Some [104, 105]) =
     Some (Inl (RuntimeException ''Broker: Unknown topic or partition''),
           [Producev 1 (send_args ''chat'' None None [104, 105]), Kafka_poll 1 100],
           Some \<lparr>ds_done = True, ds_err = 3, ds_partition = 3, ds_offset = 42\<rparr>)
   \<and> produceMessageBytes jni_all_ok (lib_rejecting_enqueue (- 184)) 1 (Some ''chat'') None
       (Some [104, 105]) =
     Some (Inl (RuntimeException ''Local: Queue full''),
           [Producev 1 (send_args ''chat'' None None [104, 105])],
           Some DeliveryState_init)"
  using produceMessageBytes_delivery_outcome
          [of 1 jni_all_ok "''chat''" None "[104, 105]" "lib_delivering 2 (report_demo 0)" 2
              "report_demo 0"]
        produceMessageBytes_delivery_outcome
          [of 1 jni_all_ok "''chat''" None "[104, 105]" "lib_delivering 0 (report_demo 3)" 0
              "report_demo 3"]
        produceMessageBytes_delivery_outcome
          [of 1 jni_all_ok "''chat''" None "[104, 105]" "lib_rejecting_enqueue (- 184)"]
  by (simp add: jni_all_ok_def lib_delivering_def lib_rejecting_enqueue_def lib_quiet_def
      report_demo_def buffers_available_def completes_def err2str_demo_def
      RD_KAFKA_RESP_ERR_NO_ERROR_def numeral_3_eq_3)


lemma produceMessageBytesToPartition_reaches_enqueue:
  assumes "producerPtr \<noteq> 0" and "buffers_available env topic jkey v"
  shows "produceMessageBytesToPartition env lib producerPtr (Some topic) p jkey (Some v)
           \<noteq> Some (Inl e, [], w)"
  using assms(1)
  by (simp add: produceMessageBytesToPartition_def marshal_simps [OF assms(2)]
      split: option.splits)

subsection \<open>The partition-targeted send\<close>

text \<open>
  Claim C8. \<open>produceMessageBytesToPartition\<close> is \<open>produceMessageBytes\<close> run against
  a library that is handed the partition index with the enqueue request: the outcome
  (validation failure, enqueue error, receipt or delivery error, or not returning) and
  the final waiter are the same, and the calls made are the same once the partition is
  added to the enqueue call.
\<close>

theorem produceMessageBytesToPartition_refines:
  "produceMessageBytesToPartition env lib producerPtr jtopic jpartition jkey jvalue =
     map_option (result_with_partition jpartition)
       (produceMessageBytes env (with_partition jpartition lib) producerPtr jtopic jkey jvalue)"
  by (simp add: produceMessageBytesToPartition_def produceMessageBytes_def
      with_partition_def result_with_partition_def call_with_partition_def
      split: option.splits)

subsection \<open>Validation of a send\<close>

text \<open>
  Claim C6, as stated, fails on a non-null but empty topic: there is no emptiness
  check, so the empty topic is handed to the enqueue call, and the failure that comes
  back is the library's, after a library call was made.
\<close>

theorem send_empty_topic_counterexample:
  "produceMessageBytes jni_all_ok (lib_rejecting_enqueue 3) 4096 (Some []) None (Some [104]) =
     Some (Inl (RuntimeException ''Broker: Unknown topic or partition''),
           [Producev 4096 (send_args [] None None [104])], Some DeliveryState_init)"
  by (simp add: produceMessageBytes_def jni_all_ok_def lib_rejecting_enqueue_def lib_quiet_def
      GetStringUTFChars_def GetByteArrayElements_def throwJavaException_def send_args_def
      err2str_demo_def RD_KAFKA_RESP_ERR_NO_ERROR_def)

text \<open>
  What a send does once its arguments have passed the null checks and its buffers are
  obtained: a rejected enqueue ends it with the library's text and the enqueue call as
  its only call; a delivery report ends it with the enqueue call followed by the
  event-driving calls; and whenever it returns, the enqueue call is its first call.
\<close>

lemma produceMessageBytes_enqueue_rejected:
  assumes "producerPtr \<noteq> 0" and "FindClass env ''java/lang/RuntimeException''"
    and bufs: "buffers_available env topic jkey v"
    and "rd_kafka_producev lib producerPtr (send_args topic None jkey v)
           \<noteq> RD_KAFKA_RESP_ERR_NO_ERROR"
  shows "produceMessageBytes env lib producerPtr (Some topic) jkey (Some v) =
           Some (Inl (RuntimeException (rd_kafka_err2str lib
                   (rd_kafka_producev lib producerPtr (send_args topic None jkey v)))),
                 [Producev producerPtr (send_args topic None jkey v)],
                 Some DeliveryState_init)"
  using assms(1,2,4)
  by (simp add: produceMessageBytes_def marshal_simps [OF bufs] send_args_def
      throwJavaException_def)

lemma produceMessageBytes_enqueue_first:
  assumes "producerPtr \<noteq> 0" and bufs: "buffers_available env topic jkey v"
    and "produceMessageBytes env lib producerPtr (Some topic) jkey (Some v)
           = Some (out, calls, w)"
  shows "\<exists>rest. calls = Producev producerPtr (send_args topic None jkey v) # rest"
  using assms(1,3)
  by (auto simp: produceMessageBytes_def marshal_simps [OF bufs] send_args_def
      split: option.splits if_splits)

lemma produceMessageBytes_returns_after_delivery:
  assumes "producerPtr \<noteq> 0" and bufs: "buffers_available env topic jkey v"
    and enq: "rd_kafka_producev lib producerPtr (send_args topic None jkey v)
           = RD_KAFKA_RESP_ERR_NO_ERROR"
    and rep: "delivery_reports lib (send_args topic None jkey v) k = Some m" "msg_private m"
      "\<forall>j<k. \<not> completes (delivery_reports lib (send_args topic None jkey v) j)"
  shows "\<exists>out w. produceMessageBytes env lib producerPtr (Some topic) jkey (Some v) =
           Some (out, Producev producerPtr (send_args topic None jkey v)
                        # replicate (Suc k) (Kafka_poll producerPtr 100), w)"
proof -
  have "block_until_delivery (delivery_reports lib (send_args topic None jkey v)) 0
          DeliveryState_init = Some (delivery_report_cb m DeliveryState_init, Suc k)"
    using rep by (intro block_until_delivery_first) (simp_all add: DeliveryState_init_def)
  then show ?thesis
    using assms(1) enq
    by (simp add: produceMessageBytes_def marshal_simps [OF bufs] send_args_def)
qed

lemma produceMessageBytesToPartition_enqueue_rejected:
  assumes "producerPtr \<noteq> 0" and "FindClass env ''java/lang/RuntimeException''"
    and bufs: "buffers_available env topic jkey v"
    and "rd_kafka_producev lib producerPtr (send_args topic (Some p) jkey v)
           \<noteq> RD_KAFKA_RESP_ERR_NO_ERROR"
  shows "produceMessageBytesToPartition env lib producerPtr (Some topic) p jkey (Some v) =
           Some (Inl (RuntimeException (rd_kafka_err2str lib
                   (rd_kafka_producev lib producerPtr (send_args topic (Some p) jkey v)))),
                 [Producev producerPtr (send_args topic (Some p) jkey v)],
                 Some DeliveryState_init)"
  using assms(1,2,4)
  by (simp add: produceMessageBytesToPartition_def marshal_simps [OF bufs] send_args_def
      throwJavaException_def)

lemma produceMessageBytesToPartition_enqueue_first:
  assumes "producerPtr \<noteq> 0" and bufs: "buffers_available env topic jkey v"
    and "produceMessageBytesToPartition env lib producerPtr (Some topic) p jkey (Some v)
           = Some (out, calls, w)"
  shows "\<exists>rest. calls = Producev producerPtr (send_args topic (Some p) jkey v) # rest"
  using assms(1,3)
  by (auto simp: produceMessageBytesToPartition_def marshal_simps [OF bufs] send_args_def
      split: option.splits if_splits)

lemma produceMessageBytesToPartition_returns_after_delivery:
  assumes "producerPtr \<noteq> 0" and bufs: "buffers_available env topic jkey v"
    and enq: "rd_kafka_producev lib producerPtr (send_args topic (Some p) jkey v)
           = RD_KAFKA_RESP_ERR_NO_ERROR"
    and rep: "delivery_reports lib (send_args topic (Some p) jkey v) k = Some m" "msg_private m"
      "\<forall>j<k. \<not> completes (delivery_reports lib (send_args topic (Some p) jkey v) j)"
  shows "\<exists>out w. produceMessageBytesToPartition env lib producerPtr (Some topic) p jkey (Some v) =
           Some (out, Producev producerPtr (send_args topic (Some p) jkey v)
                        # replicate (Suc k) (Kafka_poll producerPtr 100), w)"
proof -
  have "block_until_delivery (delivery_reports lib (send_args topic (Some p) jkey v)) 0
          DeliveryState_init = Some (delivery_report_cb m DeliveryState_init, Suc k)"
    using rep by (intro block_until_delivery_first) (simp_all add: DeliveryState_init_def)
  then show ?thesis
    using assms(1) enq
    by (simp add: produceMessageBytesToPartition_def marshal_simps [OF bufs] send_args_def)
qed

text \<open>
  Claim C6, amended. A send (plain or partition-targeted) whose handle is null, whose
  topic is absent or whose value is absent throws "Invalid arguments" with no library
  call made. A send with a non-null handle, a present topic and a present value, whose
  buffers are obtained, is not rejected by validation, whatever the topic and the value
  are, so an empty topic and a zero-length value reach the enqueue call: when the
  library rejects the enqueue, the send throws the library's text with the enqueue call,
  carrying that topic and value, as its only call; when a delivery report arrives, the
  send returns with that enqueue call followed by the event-driving calls; and every
  such send that returns has that enqueue call as its first library call.
\<close>

theorem send_validation:
  assumes rte: "FindClass env ''java/lang/RuntimeException''"
  shows
    "(producerPtr = 0 \<or> jtopic = None \<or> jvalue = None \<longrightarrow>
        produceMessageBytes env lib producerPtr jtopic jkey jvalue =
          Some (Inl (RuntimeException ''Invalid arguments''), [], None) \<and>
        produceMessageBytesToPartition env lib producerPtr jtopic jpartition jkey jvalue =
          Some (Inl (RuntimeException ''Invalid arguments''), [], None))
     \<and>
     (producerPtr \<noteq> 0 \<and> buffers_available env topic jkey v \<longrightarrow>
        (rd_kafka_producev lib producerPtr (send_args topic None jkey v)
           \<noteq> RD_KAFKA_RESP_ERR_NO_ERROR \<longrightarrow>
         produceMessageBytes env lib producerPtr (Some topic) jkey (Some v) =
           Some (Inl (RuntimeException (rd_kafka_err2str lib
                   (rd_kafka_producev lib producerPtr (send_args topic None jkey v)))),
                 [Producev producerPtr (send_args topic None jkey v)],
                 Some DeliveryState_init)) \<and>
        (rd_kafka_producev lib producerPtr (send_args topic None jkey v)
           = RD_KAFKA_RESP_ERR_NO_ERROR \<and>
         delivery_reports lib (send_args topic None jkey v) k = Some m \<and> msg_private m \<and>
         (\<forall>j<k. \<not> completes (delivery_reports lib (send_args topic None jkey v) j)) \<longrightarrow>
         (\<exists>out w. produceMessageBytes env lib producerPtr (Some topic) jkey (Some v) =
            Some (out, Producev producerPtr (send_args topic None jkey v)
                         # replicate (Suc k) (Kafka_poll producerPtr 100), w))) \<and>
        (\<forall>out calls w.
           produceMessageBytes env lib producerPtr (Some topic) jkey (Some v)
             = Some (out, calls, w) \<longrightarrow>
           (\<exists>rest. calls = Producev producerPtr (send_args topic None jkey v) # rest)) \<and>
        (rd_kafka_producev lib producerPtr (send_args topic (Some jpartition) jkey v)
           \<noteq> RD_KAFKA_RESP_ERR_NO_ERROR \<longrightarrow>
         produceMessageBytesToPartition env lib producerPtr (Some topic) jpartition jkey (Some v) =
           Some (Inl (RuntimeException (rd_kafka_err2str lib
                   (rd_kafka_producev lib producerPtr
                      (send_args topic (Some jpartition) jkey v)))),
                 [Producev producerPtr (send_args topic (Some jpartition) jkey v)],
                 Some DeliveryState_init)) \<and>
        (rd_kafka_producev lib producerPtr (send_args topic (Some jpartition) jkey v)
           = RD_KAFKA_RESP_ERR_NO_ERROR \<and>
         delivery_reports lib (send_args topic (Some jpartition) jkey v) k' = Some m' \<and>
         msg_private m' \<and>
         (\<forall>j<k'. \<not> completes
                     (delivery_reports lib (send_args topic (Some jpartition) jkey v) j)) \<longrightarrow>
         (\<exists>out w. produceMessageBytesToPartition env lib producerPtr (Some topic) jpartition
                     jkey (Some v) =
            Some (out, Producev producerPtr (send_args topic (Some jpartition) jkey v)
                         # replicate (Suc k') (Kafka_poll producerPtr 100), w))) \<and>
        (\<forall>out calls w.
           produceMessageBytesToPartition env lib producerPtr (Some topic) jpartition jkey
               (Some v) = Some (out, calls, w) \<longrightarrow>
           (\<exists>rest. calls
              = Producev producerPtr (send_args topic (Some jpartition) jkey v) # rest)))"
proof (intro conjI impI allI)
  assume "producerPtr = 0 \<or> jtopic = None \<or> jvalue = None"
  then show "produceMessageBytes env lib producerPtr jtopic jkey jvalue =
          Some (Inl (RuntimeException ''Invalid arguments''), [], None)"
    and "produceMessageBytesToPartition env lib producerPtr jtopic jpartition jkey jvalue =
          Some (Inl (RuntimeException ''Invalid arguments''), [], None)"
    using rte
    by (auto simp: produceMessageBytes_def produceMessageBytesToPartition_def
        throwJavaException_def)
next
  assume "producerPtr \<noteq> 0 \<and> buffers_available env topic jkey v"
    and "rd_kafka_producev lib producerPtr (send_args topic None jkey v)
           \<noteq> RD_KAFKA_RESP_ERR_NO_ERROR"
  then show "produceMessageBytes env lib producerPtr (Some topic) jkey (Some v) =
           Some (Inl (RuntimeException (rd_kafka_err2str lib
                   (rd_kafka_producev lib producerPtr (send_args topic None jkey v)))),
                 [Producev producerPtr (send_args topic None jkey v)],
                 Some DeliveryState_init)"
    using rte by (intro produceMessageBytes_enqueue_rejected) simp_all
next
  assume "producerPtr \<noteq> 0 \<and> buffers_available env topic jkey v"
    and "rd_kafka_producev lib producerPtr (send_args topic None jkey v)
           = RD_KAFKA_RESP_ERR_NO_ERROR \<and>
         delivery_reports lib (send_args topic None jkey v) k = Some m \<and> msg_private m \<and>
         (\<forall>j<k. \<not> completes (delivery_reports lib (send_args topic None jkey v) j))"
  then show "\<exists>out w. produceMessageBytes env lib producerPtr (Some topic) jkey (Some v) =
            Some (out, Producev producerPtr (send_args topic None jkey v)
                         # replicate (Suc k) (Kafka_poll producerPtr 100), w)"
    by (intro produceMessageBytes_returns_after_delivery [of _ _ _ _ _ _ _ m]) simp_all
next
  fix out calls w
  assume "producerPtr \<noteq> 0 \<and> buffers_available env topic jkey v"
    and "produceMessageBytes env lib producerPtr (Some topic) jkey (Some v)
           = Some (out, calls, w)"
  then show "\<exists>rest. calls = Producev producerPtr (send_args topic None jkey v) # rest"
    by (intro produceMessageBytes_enqueue_first [of _ env _ _ _ lib out calls w]) simp_all
next
  assume "producerPtr \<noteq> 0 \<and> buffers_available env topic jkey v"
    and "rd_kafka_producev lib producerPtr (send_args topic (Some jpartition) jkey v)
           \<noteq> RD_KAFKA_RESP_ERR_NO_ERROR"
  then show "produceMessageBytesToPartition env lib producerPtr (Some topic) jpartition jkey
               (Some v) =
           Some (Inl (RuntimeException (rd_kafka_err2str lib
                   (rd_kafka_producev lib producerPtr
                      (send_args topic (Some jpartition) jkey v)))),
                 [Producev producerPtr (send_args topic (Some jpartition) jkey v)],
                 Some DeliveryState_init)"
    using rte by (intro produceMessageBytesToPartition_enqueue_rejected) simp_all
next
  assume "producerPtr \<noteq> 0 \<and> buffers_available env topic jkey v"
    and "rd_kafka_producev lib producerPtr (send_args topic (Some jpartition) jkey v)
           = RD_KAFKA_RESP_ERR_NO_ERROR \<and>
         delivery_reports lib (send_args topic (Some jpartition) jkey v) k' = Some m' \<and>
         msg_private m' \<and>
         (\<forall>j<k'. \<not> completes
                     (delivery_reports lib (send_args topic (Some jpartition) jkey v) j))"
  then show "\<exists>out w. produceMessageBytesToPartition env lib producerPtr (Some topic) jpartition
                     jkey (Some v) =
            Some (out, Producev producerPtr (send_args topic (Some jpartition) jkey v)
                         # replicate (Suc k') (Kafka_poll producerPtr 100), w)"
    by (intro produceMessageBytesToPartition_returns_after_delivery [of _ _ _ _ _ _ _ _ m'])
       simp_all
next
  fix out calls w
  assume "producerPtr \<noteq> 0 \<and> buffers_available env topic jkey v"
    and "produceMessageBytesToPartition env lib producerPtr (Some topic) jpartition jkey
               (Some v) = Some (out, calls, w)"
  then show "\<exists>rest. calls
              = Producev producerPtr (send_args topic (Some jpartition) jkey v) # rest"
    by (intro produceMessageBytesToPartition_enqueue_first [of _ env _ _ _ lib _ out calls w])
       simp_all
qed

theorem send_validation_witness:
  "produceMessageBytes jni_all_ok lib_quiet 0 (Some ''chat'') None (Some [104]) =
     Some (Inl (RuntimeException ''Invalid arguments''), [], None)
   \<and> produceMessageBytes jni_all_ok lib_quiet 4096 None None (Some [104]) =
     Some (Inl (RuntimeException ''Invalid arguments''), [], None)
   \<and> produceMessageBytesToPartition jni_all_ok lib_quiet 4096 (Some ''chat'') 2 None None =
     Some (Inl (RuntimeException ''Invalid arguments''), [], None)
   \<and> produceMessageBytes jni_all_ok (lib_rejecting_enqueue 3) 4096 (Some []) None (Some []) =
     Some (Inl (RuntimeException ''Broker: Unknown topic or partition''),
           [Producev 4096 (send_args [] None None [])], Some DeliveryState_init)
   \<and> produceMessageBytesToPartition jni_all_ok (lib_rejecting_enqueue 3) 4096 (Some []) 2 None
       (Some []) =
     Some (Inl (RuntimeException ''Broker: Unknown topic or partition''),
           [Producev 4096 (send_args [] (Some 2) None [])], Some DeliveryState_init)
   \<and> (\<exists>out w. produceMessageBytes jni_all_ok (lib_delivering 1 (report_demo 0)) 4096 (Some [])
                 None (Some []) =
          Some (out, [Producev 4096 (send_args [] None None []),
                      Kafka_poll 4096 100, Kafka_poll 4096 100], w))
   \<and> (\<exists>out w. produceMessageBytesToPartition jni_all_ok (lib_delivering 1 (report_demo 0)) 4096
                 (Some []) 2 None (Some []) =
          Some (out, [Producev 4096 (send_args [] (Some 2) None []),
                      Kafka_poll 4096 100, Kafka_poll 4096 100], w))"
  using send_validation [of jni_all_ok 0 "Some ''chat''" "Some [104]" lib_quiet None]
        send_validation [of jni_all_ok 4096 None "Some [104]" lib_quiet None]
        send_validation [of jni_all_ok 4096 "Some ''chat''" None lib_quiet None 2]
        send_validation [of jni_all_ok 4096 "Some ''chat''" "Some [104]"
                            "lib_rejecting_enqueue 3" None 2 "[]" "[]"]
        send_validation [of jni_all_ok 4096 "Some ''chat''" "Some [104]"
                            "lib_delivering 1 (report_demo 0)" None 2 "[]" "[]"
                            1 "report_demo 0" 1 "report_demo 0"]
  by (simp add: jni_all_ok_def buffers_available_def lib_rejecting_enqueue_def
      lib_delivering_def lib_quiet_def report_demo_def completes_def err2str_demo_def
      RD_KAFKA_RESP_ERR_NO_ERROR_def)

subsection \<open>Producer configuration\<close>

text \<open>
  Each of the five checked properties stops the configuration when it is rejected:
  the exception carries its \<open>errstr\<close>, the configuration is destroyed, and no later
  property is set.
\<close>

lemma conf_set_each_fail_fast:
  assumes "conf_set_each lib ps conf = (Inr conf', calls)"
    and "rd_kafka_conf_set lib conf' name val = (res, errstr)" and "res \<noteq> RD_KAFKA_CONF_OK"
  shows "conf_set_each lib (ps @ (name, val) # rest) conf = (Inl errstr, calls @ [Conf_set name val])"
  using assms
  by (induction lib ps conf arbitrary: calls rule: conf_set_each.induct)
     (auto split: prod.splits if_splits)

lemma createProducerMTLS_checked_rejection:
  assumes split: "[(''bootstrap.servers'', JniStringWrapper env jbrokers),
              (''security.protocol'', Some ''SSL''),
              (''ssl.ca.location'', JniStringWrapper env jcaCertPath),
              (''ssl.certificate.location'', JniStringWrapper env jclientCertPath),
              (''ssl.key.location'', JniStringWrapper env jclientKeyPath)]
            = ps @ (name, val) # rest"
    and accepted: "conf_set_each lib ps [] = (Inr conf', calls)"
    and rejected: "rd_kafka_conf_set lib conf' name val = (res, errstr)" "res \<noteq> RD_KAFKA_CONF_OK"
    and rte: "FindClass env ''java/lang/RuntimeException''"
  shows "createProducerMTLS env lib jbrokers jcaCertPath jclientCertPath jclientKeyPath
           = (Inl (RuntimeException errstr), Conf_new # calls @ [Conf_set name val, Conf_destroy])"
  using conf_set_each_fail_fast [OF accepted rejected, of rest] rte
  unfolding createProducerMTLS_def split
  by (simp add: throwJavaException_def)

text \<open>
  Claim C2 does not hold for the last property of the sequence. When the five checked
  properties are accepted and the library rejects \<open>acks = all\<close>, the result of that
  call is not inspected: \<open>createProducerMTLS\<close> goes on to register the callbacks and
  to create the producer, throws nothing, destroys nothing and returns the handle,
  built from a configuration without the acknowledgment mode.
\<close>

theorem createProducerMTLS_acks_rejection_ignored:
  assumes checked: "conf_set_each lib
             [(''bootstrap.servers'', JniStringWrapper env jbrokers),
              (''security.protocol'', Some ''SSL''),
              (''ssl.ca.location'', JniStringWrapper env jcaCertPath),
              (''ssl.certificate.location'', JniStringWrapper env jclientCertPath),
              (''ssl.key.location'', JniStringWrapper env jclientKeyPath)] []
            = (Inr conf, calls)"
    and acks: "rd_kafka_conf_set lib conf ''acks'' (Some ''all'') = (res, errstr)"
              "res \<noteq> RD_KAFKA_CONF_OK"
    and new: "rd_kafka_new lib RD_KAFKA_PRODUCER conf = (producer, errstr')" "producer \<noteq> 0"
  shows "createProducerMTLS env lib jbrokers jcaCertPath jclientCertPath jclientKeyPath
           = (Inr producer,
              Conf_new # calls @
                [Conf_set ''acks'' (Some ''all''), Conf_set_log_cb, Conf_set_dr_msg_cb,
                 Kafka_new RD_KAFKA_PRODUCER conf])"
  using acks new unfolding createProducerMTLS_def checked by simp

theorem createProducerMTLS_acks_rejection_ignored_witness:
  "rd_kafka_conf_set (lib_rejecting_property ''acks'' ''Invalid value for acks'')
       [(''bootstrap.servers'', Some ''broker:9093''), (''security.protocol'', Some ''SSL''),
        (''ssl.ca.location'', Some ''/ca.pem''), (''ssl.certificate.location'', Some ''/cert.pem''),
        (''ssl.key.location'', Some ''/key.pem'')] ''acks'' (Some ''all'')
     = (RD_KAFKA_CONF_INVALID, ''Invalid value for acks'')
   \<and> createProducerMTLS jni_all_ok (lib_rejecting_property ''acks'' ''Invalid value for acks'')
       (Some ''broker:9093'') (Some ''/ca.pem'') (Some ''/cert.pem'') (Some ''/key.pem'')
     = (Inr 4096,
        [Conf_new, Conf_set ''bootstrap.servers'' (Some ''broker:9093''),
         Conf_set ''security.protocol'' (Some ''SSL''),
         Conf_set ''ssl.ca.location'' (Some ''/ca.pem''),
         Conf_set ''ssl.certificate.location'' (Some ''/cert.pem''),
         Conf_set ''ssl.key.location'' (Some ''/key.pem''),
         Conf_set ''acks'' (Some ''all''), Conf_set_log_cb, Conf_set_dr_msg_cb,
         Kafka_new RD_KAFKA_PRODUCER
           [(''bootstrap.servers'', Some ''broker:9093''), (''security.protocol'', Some ''SSL''),
            (''ssl.ca.location'', Some ''/ca.pem''),
            (''ssl.certificate.location'', Some ''/cert.pem''),
            (''ssl.key.location'', Some ''/key.pem'')]])"
  using createProducerMTLS_acks_rejection_ignored
          [of "lib_rejecting_property ''acks'' ''Invalid value for acks''" jni_all_ok
              "Some ''broker:9093''" "Some ''/ca.pem''" "Some ''/cert.pem''" "Some ''/key.pem''"
              "[(''bootstrap.servers'', Some ''broker:9093''), (''security.protocol'', Some ''SSL''),
                (''ssl.ca.location'', Some ''/ca.pem''),
                (''ssl.certificate.location'', Some ''/cert.pem''),
                (''ssl.key.location'', Some ''/key.pem'')]"
              "[Conf_set ''bootstrap.servers'' (Some ''broker:9093''),
                Conf_set ''security.protocol'' (Some ''SSL''),
                Conf_set ''ssl.ca.location'' (Some ''/ca.pem''),
                Conf_set ''ssl.certificate.location'' (Some ''/cert.pem''),
                Conf_set ''ssl.key.location'' (Some ''/key.pem'')]"
              RD_KAFKA_CONF_INVALID "''Invalid value for acks''" 4096 "[]"]
  by (simp add: lib_rejecting_property_def lib_quiet_def jni_all_ok_def JniStringWrapper_def
      GetStringUTFChars_def)

subsection \<open>TLS material at handle creation\<close>

text \<open>
  Claim C5, as stated, fails when none of the three paths is given: the secured
  consumer creation rejects that call like any other call with an absent path.
\<close>

theorem createConsumerMTLS_no_tls_counterexample:
  "createConsumerMTLS jni_all_ok lib_quiet (Some ''broker:9093'') (Some ''chat-group'')
       None None None None
     = (Inl (RuntimeException ''Certificate paths cannot be null''), [])"
  by (simp add: createConsumerMTLS_def jni_all_ok_def throwJavaException_def)

text \<open>
  Claim C5, amended. \<open>createConsumerMTLS\<close> with brokers and group present requires
  all three of CA path, certificate path and key path: when any of them is absent (none,
  one or two present) it throws "Certificate paths cannot be null" with no library call
  made and no handle created; when all three are present, empty or not, and the strings
  are obtained, it goes on to configure, starting with the bootstrap endpoints.
\<close>

theorem createConsumerMTLS_tls_validation:
  assumes rte: "FindClass env ''java/lang/RuntimeException''"
  shows
    "(jcaCertPath = None \<or> jclientCertPath = None \<or> jclientKeyPath = None \<longrightarrow>
        createConsumerMTLS env lib (Some brokers) (Some groupId) jcaCertPath jclientCertPath
            jclientKeyPath joffsetStrategy
          = (Inl (RuntimeException ''Certificate paths cannot be null''), []))
     \<and>
     (string_chars_available env brokers \<and> string_chars_available env groupId \<and>
      string_chars_available env ca \<and> string_chars_available env cert \<and>
      string_chars_available env key \<longrightarrow>
        (\<exists>calls. snd (createConsumerMTLS env lib (Some brokers) (Some groupId) (Some ca)
                        (Some cert) (Some key) joffsetStrategy)
                   = Conf_new # Conf_set ''bootstrap.servers'' (Some brokers) # calls))"
  using rte
  by (auto simp: createConsumerMTLS_def throwJavaException_def GetStringUTFChars_def
      split: prod.splits sum.splits)

theorem createConsumerMTLS_tls_validation_witness:
  "createConsumerMTLS jni_all_ok lib_quiet (Some ''broker:9093'') (Some ''chat-group'')
       (Some ''/ca.pem'') None (Some ''/key.pem'') None
     = (Inl (RuntimeException ''Certificate paths cannot be null''), [])
   \<and> (\<exists>calls. snd (createConsumerMTLS jni_all_ok lib_quiet (Some ''broker:9093'')
                     (Some ''chat-group'') (Some []) (Some []) (Some []) None)
                = Conf_new # Conf_set ''bootstrap.servers'' (Some ''broker:9093'') # calls)"
  using createConsumerMTLS_tls_validation
          [of jni_all_ok "Some ''/ca.pem''" None "Some ''/key.pem''" lib_quiet "''broker:9093''"
              "''chat-group''" None "[]" "[]" "[]"]
  by (simp add: jni_all_ok_def)

text \<open>
  \<open>createProducerMTLS\<close> has no check of its arguments: with the CA path alone it
  passes null pointers as the certificate and key locations and returns the handle
  when the library accepts them.
\<close>

lemma createProducerMTLS_partial_tls_unvalidated:
  "createProducerMTLS jni_all_ok lib_quiet (Some ''broker:9093'') (Some ''/ca.pem'') None None
     = (Inr 4096,
        [Conf_new, Conf_set ''bootstrap.servers'' (Some ''broker:9093''),
         Conf_set ''security.protocol'' (Some ''SSL''),
         Conf_set ''ssl.ca.location'' (Some ''/ca.pem''),
         Conf_set ''ssl.certificate.location'' None,
         Conf_set ''ssl.key.location'' None,
         Conf_set ''acks'' (Some ''all''), Conf_set_log_cb, Conf_set_dr_msg_cb,
         Kafka_new RD_KAFKA_PRODUCER
           [(''bootstrap.servers'', Some ''broker:9093''), (''security.protocol'', Some ''SSL''),
            (''ssl.ca.location'', Some ''/ca.pem''), (''ssl.certificate.location'', None),
            (''ssl.key.location'', None), (''acks'', Some ''all'')]])"
  by (simp add: createProducerMTLS_def lib_quiet_def jni_all_ok_def JniStringWrapper_def
      GetStringUTFChars_def)

subsection \<open>Subscription by topic\<close>

text \<open>
  Claim C4 does not hold for the effect of the offset policy. \<open>subscribe\<close> does set
  the policy on a fresh configuration, build the single-topic list with the unassigned
  partition and request the subscription, but the configuration is then given to no
  call other than \<open>rd_kafka_conf_set_opaque\<close>: the subscription request carries the
  handle and the topic list only. So for two policies that the library accepts, the
  outcome is the same and the calls differ in nothing but the property set on the
  configuration that is left behind.
\<close>

theorem subscribe_offset_policy_unused:
  assumes ptr: "consumerPtr \<noteq> 0"
    and top: "string_chars_available env topic"
    and pol: "string_chars_available env policy" "string_chars_available env policy'"
    and acc: "fst (rd_kafka_conf_set lib [] ''auto.offset.reset'' (Some policy)) = RD_KAFKA_CONF_OK"
             "fst (rd_kafka_conf_set lib [] ''auto.offset.reset'' (Some policy')) = RD_KAFKA_CONF_OK"
  shows "subscribe env lib consumerPtr (Some topic) (Some policy) =
           (if rd_kafka_subscribe lib consumerPtr [(topic, RD_KAFKA_PARTITION_UA)]
                 \<noteq> RD_KAFKA_RESP_ERR_NO_ERROR
            then Some (throwJavaException env (rd_kafka_err2str lib
                   (rd_kafka_subscribe lib consumerPtr [(topic, RD_KAFKA_PARTITION_UA)])))
            else None,
            [Conf_new, Conf_set ''auto.offset.reset'' (Some policy),
             Conf_set_opaque consumerPtr,
             Topic_partition_list_new 1,
             Topic_partition_list_add topic RD_KAFKA_PARTITION_UA,
             Subscribe consumerPtr [(topic, RD_KAFKA_PARTITION_UA)],
             Topic_partition_list_destroy])
       \<and> fst (subscribe env lib consumerPtr (Some topic) (Some policy))
           = fst (subscribe env lib consumerPtr (Some topic) (Some policy'))
       \<and> filter (\<lambda>c. c \<noteq> Conf_set ''auto.offset.reset'' (Some policy))
            (snd (subscribe env lib consumerPtr (Some topic) (Some policy)))
           = filter (\<lambda>c. c \<noteq> Conf_set ''auto.offset.reset'' (Some policy'))
               (snd (subscribe env lib consumerPtr (Some topic) (Some policy')))"
proof -
  have run: "subscribe env lib consumerPtr (Some topic) (Some p) =
           (if rd_kafka_subscribe lib consumerPtr [(topic, RD_KAFKA_PARTITION_UA)]
                 \<noteq> RD_KAFKA_RESP_ERR_NO_ERROR
            then Some (throwJavaException env (rd_kafka_err2str lib
                   (rd_kafka_subscribe lib consumerPtr [(topic, RD_KAFKA_PARTITION_UA)])))
            else None,
            [Conf_new, Conf_set ''auto.offset.reset'' (Some p),
             Conf_set_opaque consumerPtr,
             Topic_partition_list_new 1,
             Topic_partition_list_add topic RD_KAFKA_PARTITION_UA,
             Subscribe consumerPtr [(topic, RD_KAFKA_PARTITION_UA)],
             Topic_partition_list_destroy])"
    if "string_chars_available env p"
      and "fst (rd_kafka_conf_set lib [] ''auto.offset.reset'' (Some p)) = RD_KAFKA_CONF_OK"
    for p
    using that ptr top
    by (cases "rd_kafka_conf_set lib [] ''auto.offset.reset'' (Some p)")
       (simp add: subscribe_def GetStringUTFChars_def)
  show ?thesis
    by (simp add: run [OF pol(1) acc(1)] run [OF pol(2) acc(2)])
qed

theorem subscribe_offset_policy_unused_witness:
  "subscribe jni_all_ok lib_quiet 4096 (Some ''chat'') (Some ''earliest'') =
     (None,
      [Conf_new, Conf_set ''auto.offset.reset'' (Some ''earliest''), Conf_set_opaque 4096,
       Topic_partition_list_new 1, Topic_partition_list_add ''chat'' (- 1),
       Subscribe 4096 [(''chat'', - 1)], Topic_partition_list_destroy])
   \<and> fst (subscribe jni_all_ok lib_quiet 4096 (Some ''chat'') (Some ''earliest''))
       = fst (subscribe jni_all_ok lib_quiet 4096 (Some ''chat'') (Some ''latest''))
   \<and> filter (\<lambda>c. c \<noteq> Conf_set ''auto.offset.reset'' (Some ''earliest''))
        (snd (subscribe jni_all_ok lib_quiet 4096 (Some ''chat'') (Some ''earliest'')))
       = filter (\<lambda>c. c \<noteq> Conf_set ''auto.offset.reset'' (Some ''latest''))
           (snd (subscribe jni_all_ok lib_quiet 4096 (Some ''chat'') (Some ''latest'')))"
  using subscribe_offset_policy_unused
          [of 4096 jni_all_ok "''chat''" "''earliest''" "''latest''" lib_quiet]
        subscribe_offset_policy_unused
          [of 4096 jni_all_ok "''chat''" "''latest''" "''earliest''" lib_quiet]
  by (simp add: jni_all_ok_def lib_quiet_def RD_KAFKA_PARTITION_UA_def
      RD_KAFKA_RESP_ERR_NO_ERROR_def)

subsection \<open>Polling\<close>




text \<open>
  The text of that exception is read through the pointer after the message is
  destroyed. When the pointer is into the message, as it is for an errored message
  that carries its error text as payload, the exception holds whatever that read
  yields.
\<close>

lemma pollMessage_error_text_read_after_destroy:
  "pollMessage jni_all_ok
       (lib_error_in_payload (Some (fetched_demo 3 (Some [70, 97, 105, 108]))) ''#@!'')
       4096 100
     = (Inl (RuntimeException ''#@!''), [Consumer_poll 4096 100, Message_destroy])"
  by (simp add: pollMessage_def jni_all_ok_def lib_error_in_payload_def lib_quiet_def
      fetched_demo_def throwJavaException_def RD_KAFKA_RESP_ERR__PARTITION_EOF_def)



subsection \<open>Closing a consumer\<close>




end
